theory Spec2Isabelle
  imports Complex_Main "HOL-Library.Word"
begin

section \<open>JavaScript strings and optional values\<close>

text \<open>
  A JavaScript string is a sequence of UTF-16 code units: \<open>length\<close> counts code units
  and \<open>slice(0, n)\<close> keeps the first \<open>n\<close> of them.  A value that may be
  \<open>undefined\<close> or \<open>null\<close> is an \<open>option\<close>, \<open>None\<close> standing for both.
\<close>

type_synonym jschar = "16 word"
type_synonym jsstring = "jschar list"

text \<open>An ASCII string literal of the source, as code units.\<close>

definition lit :: "string \<Rightarrow> jsstring" where
  "lit s = map (\<lambda>c. of_nat (of_char c)) s"

text \<open>The code units that \<open>String.prototype.trim\<close> strips: WhiteSpace and LineTerminator.\<close>

definition isWhiteSpace :: "jschar \<Rightarrow> bool" where
  "isWhiteSpace c \<longleftrightarrow>
     c \<in> set [0x0009, 0x000A, 0x000B, 0x000C, 0x000D, 0x0020, 0x00A0, 0x1680,
               0x2028, 0x2029, 0x202F, 0x205F, 0x3000, 0xFEFF]
     \<or> (0x2000 \<le> c \<and> c \<le> 0x200A)"

definition trim :: "jsstring \<Rightarrow> jsstring" where
  "trim s = rev (dropWhile isWhiteSpace (rev (dropWhile isWhiteSpace s)))"

text \<open>\<open>Array.prototype.join\<close> on an array of strings.\<close>

fun join :: "jsstring \<Rightarrow> jsstring list \<Rightarrow> jsstring" where
  "join sep [] = []"
| "join sep [x] = x"
| "join sep (x # y # ys) = x @ sep @ join sep (y # ys)"

text \<open>The decimal digits of a non-negative integer, as a template literal prints it.\<close>

function digits :: "nat \<Rightarrow> jsstring" where
  "digits n = (if n < 10 then [of_nat (48 + n)]
               else digits (n div 10) @ [of_nat (48 + n mod 10)])"
  by pat_completeness auto
termination
  by (relation "measure id") auto

text \<open>Truthiness of an optional string: \<open>undefined\<close>, \<open>null\<close> and \<open>""\<close> are falsy.\<close>

definition truthy :: "jsstring option \<Rightarrow> bool" where
  "truthy v = (case v of None \<Rightarrow> False | Some s \<Rightarrow> s \<noteq> [])"

text \<open>\<open>v || d\<close> for an optional string \<open>v\<close> and a string \<open>d\<close>.\<close>

definition orElse :: "jsstring option \<Rightarrow> jsstring \<Rightarrow> jsstring" where
  "orElse v d = (case v of None \<Rightarrow> d | Some s \<Rightarrow> if s = [] then d else s)"

text \<open>A thrown \<open>Error\<close> object, with its message.\<close>

datatype js_error = Error (message: jsstring)

text \<open>\<open>error?.message || error\<close> inside a template literal: an \<open>Error\<close> with an empty
  message prints as its name.\<close>

definition error_text :: "js_error \<Rightarrow> jsstring" where
  "error_text e = (if message e \<noteq> [] then message e else lit ''Error'')"

section \<open>Configuration\<close>

record process_env =
  env_OPENAI_API_KEY :: "jsstring option"
  env_YT_LANGUAGE :: "jsstring option"

definition COLLECTION_NAME :: jsstring where
  "COLLECTION_NAME = lit ''ragChat''"

definition OPENAI_API_KEY :: "process_env \<Rightarrow> jsstring" where
  "OPENAI_API_KEY pe = orElse (env_OPENAI_API_KEY pe) []"

definition YT_LANGUAGE :: "process_env \<Rightarrow> jsstring" where
  "YT_LANGUAGE pe = orElse (env_YT_LANGUAGE pe) (lit ''en'')"

section \<open>Documents\<close>

text \<open>
  A LangChain document.  The code reads \<open>d.pageContent || ""\<close>, \<open>d.metadata?.source\<close> and
  \<open>d.metadata?.note\<close>, so each of them may be missing.  Other metadata keys are carried
  along by the libraries and never read by the server; they are not represented.
\<close>

record metadata =
  source :: "jsstring option"
  note' :: "jsstring option"

record document =
  pageContent :: "jsstring option"
  metadata :: "metadata option"

text \<open>\<open>new Document({ pageContent, metadata })\<close>\<close>

definition Document :: "jsstring \<Rightarrow> metadata \<Rightarrow> document" where
  "Document content md = \<lparr>pageContent = Some content, metadata = Some md\<rparr>"

text \<open>\<open>d.metadata?.source\<close> and \<open>d.metadata?.note\<close>\<close>

definition metadata_source :: "document \<Rightarrow> jsstring option" where
  "metadata_source d = (case metadata d of None \<Rightarrow> None | Some m \<Rightarrow> source m)"

definition metadata_note :: "document \<Rightarrow> jsstring option" where
  "metadata_note d = (case metadata d of None \<Rightarrow> None | Some m \<Rightarrow> note' m)"

section \<open>External collaborators\<close>

text \<open>Options handed to \<open>YoutubeLoader.createFromUrl\<close>.\<close>

record yt_options =
  language :: "jsstring option"
  addVideoInfo :: bool
  translation :: "jsstring option"

text \<open>A handle on a named collection of the vector database.\<close>

datatype store = Store jsstring

record llm =
  apiKey :: jsstring
  model :: jsstring
  temperature :: rat

record message =
  role :: jsstring
  content :: jsstring

text \<open>
  The \<open>content\<close> of a language-model response: a string, an array whose elements are
  strings or objects with an optional \<open>text\<close>, or anything else, given by what
  \<open>JSON.stringify\<close> makes of it (\<open>undefined\<close> for \<open>undefined\<close>).
\<close>

datatype content_part = PartString jsstring | PartObject "jsstring option"

datatype llm_content =
    ContentString jsstring
  | ContentArray "content_part list"
  | ContentOther "jsstring option"

text \<open>
  What the libraries and services answer while one request is handled.  Every function
  of the server that calls them takes this record, and returns the calls it made as a
  list of events, oldest first.
\<close>

record world =
  fs_access :: "jsstring \<Rightarrow> bool"
  pdf_loader_load :: "jsstring \<Rightarrow> js_error + document list"
  youtube_loader_load :: "jsstring \<Rightarrow> yt_options \<Rightarrow> js_error + document list"
  splitDocuments :: "nat \<Rightarrow> nat \<Rightarrow> document list \<Rightarrow> js_error + document list"
  fromExistingCollection :: "jsstring \<Rightarrow> js_error + store"
  fromDocuments :: "document list \<Rightarrow> jsstring \<Rightarrow> js_error option"
  getRelevantDocuments :: "store \<Rightarrow> jsstring \<Rightarrow> nat \<Rightarrow> js_error + document list"
  llm_invoke :: "llm \<Rightarrow> message list \<Rightarrow> js_error + llm_content"

datatype event =
    FsAccess jsstring
  | PdfLoad jsstring
  | FsUnlink jsstring
  | YoutubeLoad jsstring yt_options
  | SplitDocuments nat nat "document list"
  | FromExistingCollection jsstring
  | FromDocuments "document list" jsstring
  | GetRelevantDocuments store jsstring nat
  | LlmInvoke llm "message list"

section \<open>Source normalizer\<close>

definition loadInline :: "jsstring option \<Rightarrow> document list" where
  "loadInline text' =
     (case text' of
        None \<Rightarrow> []
      | Some t \<Rightarrow>
          if t = [] \<or> trim t = [] then []
          else [Document t \<lparr>source = Some (lit ''inline''), note' = None\<rparr>])"

text \<open>
  \<open>loadPdf\<close>: an inaccessible temporary file is thrown to the caller; a failure of the PDF
  loader is not, it becomes one empty document that carries the reason as its note.
\<close>

definition loadPdf ::
  "world \<Rightarrow> jsstring \<Rightarrow> jsstring option \<Rightarrow> event list \<times> (js_error + document list)" where
  "loadPdf w tempPath originalName =
     (if tempPath = [] then ([], Inr [])
      else if \<not> fs_access w tempPath then
        ([FsAccess tempPath],
         Inl (Error (lit ''Uploaded file cannot be accessed at '' @ tempPath)))
      else
        ([FsAccess tempPath, PdfLoad tempPath],
         Inr (case pdf_loader_load w tempPath of
                Inr docs \<Rightarrow>
                  map (\<lambda>doc. doc\<lparr>metadata :=
                         Some ((case metadata doc of
                                  None \<Rightarrow> \<lparr>source = None, note' = None\<rparr>
                                | Some m \<Rightarrow> m)
                               \<lparr>source := Some (orElse originalName (lit ''upload.pdf''))\<rparr>)\<rparr>)
                      docs
              | Inl error \<Rightarrow>
                  [Document []
                     \<lparr>source = Some (orElse originalName (lit ''upload.pdf'')),
                      note' = Some (lit ''Error processing PDF: '' @ error_text error)\<rparr>])))"

text \<open>
  \<open>loadYouTube\<close>: two attempts, each inside its own \<open>try\<close>/\<open>catch\<close> that only logs.
  The options of the first attempt are the literals of the source; \<open>YT_LANGUAGE\<close> occurs
  in the note of the document (and in the log line) only.
\<close>

definition loadYouTube ::
  "process_env \<Rightarrow> world \<Rightarrow> jsstring option \<Rightarrow> event list \<times> document list" where
  "loadYouTube pe w url =
     (case url of
        None \<Rightarrow> ([], [])
      | Some u \<Rightarrow>
          if u = [] \<or> trim u = [] then ([], [])
          else
            let opts1 = \<lparr>language = Some (lit ''en''), addVideoInfo = True,
                         translation = Some (lit ''en'')\<rparr>;
                text1 = (case youtube_loader_load w u opts1 of
                           Inr docs \<Rightarrow>
                             trim (join [0x000A] (map (\<lambda>d. orElse (pageContent d) []) docs))
                         | Inl err \<Rightarrow> [])
            in if text1 \<noteq> [] then
                 ([YoutubeLoad u opts1],
                  [Document text1
                     \<lparr>source = Some u,
                      note' = Some (lit ''YouTube transcript loaded via LangChain (lang=''
                                    @ YT_LANGUAGE pe @ lit '')'')\<rparr>])
               else
                 let opts2 = \<lparr>language = None, addVideoInfo = False, translation = None\<rparr>;
                     text2 = (case youtube_loader_load w u opts2 of
                                Inr docs \<Rightarrow>
                                  trim (join [0x000A] (map (\<lambda>d. orElse (pageContent d) []) docs))
                              | Inl err \<Rightarrow> [])
                 in if text2 \<noteq> [] then
                      ([YoutubeLoad u opts1, YoutubeLoad u opts2],
                       [Document text2
                          \<lparr>source = Some u,
                           note' = Some (lit ''YouTube transcript loaded via LangChain (no lang hint)'')\<rparr>])
                    else
                      ([YoutubeLoad u opts1, YoutubeLoad u opts2],
                       [Document []
                          \<lparr>source = Some u,
                           note' = Some (lit ''No transcript available or failed to fetch via LangChain YoutubeLoader'')\<rparr>]))"

section \<open>Chunker and index gateway\<close>

definition chunkDocs ::
  "world \<Rightarrow> document list \<Rightarrow> nat option \<Rightarrow> nat option \<Rightarrow> event list \<times> (js_error + document list)" where
  "chunkDocs w docs chunkSize chunkOverlap =
     (let cs = (case chunkSize of None \<Rightarrow> 800 | Some n \<Rightarrow> n);
          co = (case chunkOverlap of None \<Rightarrow> 160 | Some n \<Rightarrow> n)
      in ([SplitDocuments cs co docs], splitDocuments w cs co docs))"

definition makeStore :: "world \<Rightarrow> jsstring \<Rightarrow> event list \<times> (js_error + store)" where
  "makeStore w collectionName =
     ([FromExistingCollection collectionName], fromExistingCollection w collectionName)"

text \<open>\<open>upsertChunks\<close>: \<open>None\<close> is an absent (\<open>undefined\<close> or \<open>null\<close>) argument.\<close>

definition upsertChunks :: "world \<Rightarrow> document list option \<Rightarrow> event list \<times> (js_error + nat)" where
  "upsertChunks w chunks =
     (case chunks of
        None \<Rightarrow> ([], Inr 0)
      | Some cs \<Rightarrow>
          if length cs = 0 then ([], Inr 0)
          else (case fromDocuments w cs COLLECTION_NAME of
                  Some e \<Rightarrow> ([FromDocuments cs COLLECTION_NAME], Inl e)
                | None \<Rightarrow> ([FromDocuments cs COLLECTION_NAME], Inr (length cs))))"

section \<open>Retrieval-answer engine\<close>

definition makeLLM :: "process_env \<Rightarrow> js_error + llm" where
  "makeLLM pe =
     (if OPENAI_API_KEY pe = [] then Inl (Error (lit ''Missing OPENAI_API_KEY''))
      else Inr \<lparr>apiKey = OPENAI_API_KEY pe, model = lit ''gpt-4o-mini'', temperature = 2 / 10\<rparr>)"

text \<open>An entry of the \<open>sources\<close> of an answer.\<close>

record cited =
  cited_source :: jsstring
  snippet :: jsstring

record answer_result =
  answer_text :: "jsstring option"
  sources :: "cited list"

text \<open>The string literals of the two messages, as the source file holds them.\<close>

definition system_content :: jsstring where
  "system_content =
     [0x00F0, 0x0178, 0x2018, 0x2039] @ lit '' Hi! I'' @ [0x00E2, 0x20AC, 0x2122]
     @ lit ''m your friendly RAG assistant. I'' @ [0x00E2, 0x20AC, 0x2122]
     @ lit ''ll use only the provided context to help you quickly and clearly. ''
     @ lit ''If the context isn'' @ [0x00E2, 0x20AC, 0x2122] @ lit ''t enough, I''
     @ [0x00E2, 0x20AC, 0x2122]
     @ lit ''ll say so and suggest what to add. Keep answers short, practical, and easy to act on. ''
     @ lit ''Use light emojis when helpful ('' @ [0x00E2, 0x0153, 0x2026] @ lit '', ''
     @ [0x00E2, 0x0161, 0x00A0, 0x00EF, 0x00B8] @ lit ''). No guesses.''"

definition user_content :: "jsstring \<Rightarrow> jsstring \<Rightarrow> jsstring" where
  "user_content context query =
     [0x00F0, 0x0178, 0x201C, 0x0161] @ lit '' Context:'' @ [0x000A] @ context
     @ [0x000A, 0x000A, 0x00E2, 0x201C] @ lit '' Question: '' @ query
     @ [0x000A, 0x000A, 0x00F0, 0x0178, 0x2019, 0x00A1] @ lit '' Answer:''"

text \<open>The plain text of a response, by the three shapes of its content.\<close>

definition responseText :: "llm_content \<Rightarrow> jsstring option" where
  "responseText c =
     (case c of
        ContentString s \<Rightarrow> Some s
      | ContentArray parts \<Rightarrow>
          Some (join [0x000A]
                  (map (\<lambda>c. case c of PartString s \<Rightarrow> s | PartObject t \<Rightarrow> orElse t []) parts))
      | ContentOther json \<Rightarrow> json)"

text \<open>
  \<open>answer\<close>: retrieval comes first, then the prompt context, then \<open>makeLLM\<close> with its
  credential check, then the call of the model.  \<open>k\<close> is the optional third parameter.
\<close>

definition answer ::
  "process_env \<Rightarrow> world \<Rightarrow> store \<Rightarrow> jsstring \<Rightarrow> nat option \<Rightarrow> event list \<times> (js_error + answer_result)" where
  "answer pe w store' query k' =
     (let k = (case k' of None \<Rightarrow> 5 | Some n \<Rightarrow> n) in
      case getRelevantDocuments w store' query k of
        Inl e \<Rightarrow> ([GetRelevantDocuments store' query k], Inl e)
      | Inr docs \<Rightarrow>
          let context =
                join [0x000A, 0x000A]
                  (map (\<lambda>(i, d).
                          let body = take 1200 (orElse (pageContent d) []);
                              src = orElse (metadata_source d) (lit ''unknown'')
                          in lit ''# Doc '' @ digits (i + 1) @ lit '' (source: '' @ src @ lit '')''
                             @ [0x000A] @ body)
                       (enumerate 0 docs))
          in case makeLLM pe of
               Inl e \<Rightarrow> ([GetRelevantDocuments store' query k], Inl e)
             | Inr llm \<Rightarrow>
                 let messages =
                       [\<lparr>role = lit ''system'', content = system_content\<rparr>,
                        \<lparr>role = lit ''user'', content = user_content context query\<rparr>]
                 in case llm_invoke w llm messages of
                      Inl e \<Rightarrow>
                        ([GetRelevantDocuments store' query k, LlmInvoke llm messages], Inl e)
                    | Inr res \<Rightarrow>
                        ([GetRelevantDocuments store' query k, LlmInvoke llm messages],
                         Inr \<lparr>answer_text = responseText res,
                              sources =
                                map (\<lambda>d. \<lparr>cited_source = orElse (metadata_source d) (lit ''unknown''),
                                          snippet = take 200 (orElse (pageContent d) [])\<rparr>)
                                    docs\<rparr>))"

section \<open>Sessions\<close>

record session =
  session_store :: store

record server_state =
  sessions :: "jsstring \<rightharpoonup> session"
  sharedStorePromise :: "(js_error + store) option"

text \<open>
  \<open>newSessionId\<close>: the clock (\<open>Date.now()\<close>) and the text of
  \<open>Math.random().toString(36)\<close> are inputs; \<open>slice(2, 8)\<close> keeps six code units from
  index 2.
\<close>

definition newSessionId :: "nat \<Rightarrow> jsstring \<Rightarrow> jsstring" where
  "newSessionId now random36 = lit ''s_'' @ digits now @ lit ''_'' @ take 6 (drop 2 random36)"

text \<open>\<open>getSharedStore\<close>: the promise is created once and kept, also when it is rejected.\<close>

definition getSharedStore ::
  "world \<Rightarrow> server_state \<Rightarrow> event list \<times> server_state \<times> (js_error + store)" where
  "getSharedStore w st =
     (case sharedStorePromise st of
        None \<Rightarrow>
          (let (t, p) = makeStore w COLLECTION_NAME
           in (t, st\<lparr>sharedStorePromise := Some p\<rparr>, p))
      | Some p \<Rightarrow> ([], st, p))"

section \<open>The two routes\<close>

text \<open>
  The request bodies.  A field is a string or missing; the uploaded file is given by its
  temporary path and its original name (its size is only logged).
\<close>

record uploaded_file =
  path :: jsstring
  originalname :: "jsstring option"

record process_request =
  inlineText :: "jsstring option"
  youtubeUrl :: "jsstring option"
  file' :: "uploaded_file option"

record ask_request =
  ask_sessionId :: "jsstring option"
  ask_query :: "jsstring option"

record source_meta =
  meta_source :: jsstring
  meta_note :: "jsstring option"
  hasContent :: bool

record process_ok =
  sessionId :: jsstring
  chunks :: nat
  added :: nat
  sources_meta :: "source_meta list"

datatype response_body =
    ProcessOk process_ok
  | NoContent jsstring "jsstring list"
  | ErrorBody jsstring
  | AnswerOk answer_result

record response =
  status :: nat
  body :: response_body

text \<open>The \<open>catch\<close> of a route: status 500 with \<open>e?.message || fallback\<close>.\<close>

definition failed :: "js_error \<Rightarrow> jsstring \<Rightarrow> response" where
  "failed e fallback = \<lparr>status = 500, body = ErrorBody (orElse (Some (message e)) fallback)\<rparr>"

text \<open>
  \<open>Promise.all\<close> over the three loaders, then \<open>flat\<close>.  The loaders run concurrently;
  the events are listed loader by loader.  A rejected \<open>loadPdf\<close> rejects the whole, while
  the calls of \<open>loadYouTube\<close> are made all the same.
\<close>

definition loadParts ::
  "process_env \<Rightarrow> world \<Rightarrow> process_request \<Rightarrow> event list \<times> (js_error + document list)" where
  "loadParts pe w req =
     (let p1 = loadInline (inlineText req);
          (t2, p2) = (case file' req of
                        None \<Rightarrow> ([], Inr [])
                      | Some f \<Rightarrow> loadPdf w (path f) (originalname f));
          (t3, p3) = loadYouTube pe w (youtubeUrl req)
      in (t2 @ t3, case p2 of Inl e \<Rightarrow> Inl e | Inr pdfDocs \<Rightarrow> Inr (p1 @ pdfDocs @ p3)))"

text \<open>\<open>docs.map((d) => d.metadata?.note).filter(Boolean)\<close>\<close>

definition collectNotes :: "document list \<Rightarrow> jsstring list" where
  "collectNotes docs = [n. Some n \<leftarrow> filter truthy (map metadata_note docs)]"

definition no_content_message :: jsstring where
  "no_content_message =
     lit ''No extractable content. Tips: add some Inline Text, use a text-based PDF (not scanned), or a YouTube URL with captions.''"

text \<open>
  \<open>POST /process\<close>.  \<open>now\<close> and \<open>random36\<close> feed \<open>newSessionId\<close>.  The result is the
  events, the server state afterwards and the response.
\<close>

definition process_handler ::
  "process_env \<Rightarrow> world \<Rightarrow> nat \<Rightarrow> jsstring \<Rightarrow> server_state \<Rightarrow> process_request
     \<Rightarrow> event list \<times> server_state \<times> response" where
  "process_handler pe w now random36 st req =
     (case loadParts pe w req of
        (tp, Inl e) \<Rightarrow> (tp, st, failed e (lit ''Failed to process''))
      | (tp, Inr docs) \<Rightarrow>
          let tu = (case file' req of None \<Rightarrow> [] | Some f \<Rightarrow> [FsUnlink (path f)]);
              hasAnyContent =
                list_ex (\<lambda>d. length (trim (orElse (pageContent d) [])) > 0) docs
          in if \<not> hasAnyContent then
               (tp @ tu, st,
                \<lparr>status = 400, body = NoContent no_content_message (collectNotes docs)\<rparr>)
             else
               (case chunkDocs w docs None None of
                  (tc, Inl e) \<Rightarrow> (tp @ tu @ tc, st, failed e (lit ''Failed to process''))
                | (tc, Inr chunks') \<Rightarrow>
                    (case getSharedStore w st of
                       (ts, st1, Inl e) \<Rightarrow>
                         (tp @ tu @ tc @ ts, st1, failed e (lit ''Failed to process''))
                     | (ts, st1, Inr store') \<Rightarrow>
                         (case upsertChunks w (Some chunks') of
                            (tw, Inl e) \<Rightarrow>
                              (tp @ tu @ tc @ ts @ tw, st1, failed e (lit ''Failed to process''))
                          | (tw, Inr added') \<Rightarrow>
                              let sid = newSessionId now random36;
                                  st2 = st1\<lparr>sessions :=
                                          (sessions st1)(sid \<mapsto> \<lparr>session_store = store'\<rparr>)\<rparr>;
                                  sourcesMeta =
                                    map (\<lambda>d. \<lparr>meta_source = orElse (metadata_source d) (lit ''unknown''),
                                              meta_note = (if truthy (metadata_note d)
                                                           then metadata_note d else None),
                                              hasContent = (trim (orElse (pageContent d) []) \<noteq> [])\<rparr>)
                                        docs
                              in (tp @ tu @ tc @ ts @ tw, st2,
                                  \<lparr>status = 200,
                                   body = ProcessOk \<lparr>sessionId = sid, chunks = length chunks',
                                                     added = added', sources_meta = sourcesMeta\<rparr>\<rparr>)))))"

text \<open>\<open>POST /ask\<close>\<close>

definition ask_handler ::
  "process_env \<Rightarrow> world \<Rightarrow> server_state \<Rightarrow> ask_request \<Rightarrow> event list \<times> server_state \<times> response" where
  "ask_handler pe w st req =
     (let required = \<lparr>status = 400, body = ErrorBody (lit ''sessionId and query are required'')\<rparr>
      in case ask_sessionId req of
           None \<Rightarrow> ([], st, required)
         | Some sid \<Rightarrow>
             if sid = [] then ([], st, required)
             else
               (case ask_query req of
                  None \<Rightarrow> ([], st, required)
                | Some query \<Rightarrow>
                    if query = [] then ([], st, required)
                    else
                      (case sessions st sid of
                         None \<Rightarrow>
                           ([], st,
                            \<lparr>status = 404, body = ErrorBody (lit ''Invalid or expired sessionId'')\<rparr>)
                       | Some sess \<Rightarrow>
                           (case answer pe w (session_store sess) query None of
                              (t, Inl e) \<Rightarrow> (t, st, failed e (lit ''Failed to answer''))
                            | (t, Inr result) \<Rightarrow>
                                (t, st, \<lparr>status = 200, body = AnswerOk result\<rparr>)))))"

section \<open>Vocabulary of the statements\<close>

text \<open>
  The usable text of one caption-fetch attempt, from what the loader answered: nothing
  when the loader threw, the joined and trimmed page contents otherwise.
\<close>

definition attemptText :: "js_error + document list \<Rightarrow> jsstring" where
  "attemptText r =
     (case r of
        Inl e \<Rightarrow> []
      | Inr docs \<Rightarrow> trim (join [0x000A] (map (\<lambda>d. orElse (pageContent d) []) docs)))"

text \<open>How many records an event hands to the vector database for writing.\<close>

fun written :: "event \<Rightarrow> nat" where
  "written (FromDocuments docs n) = length docs"
| "written _ = 0"

text \<open>The events that reach the embedding provider, the vector database or the model.\<close>

fun provider_call :: "event \<Rightarrow> bool" where
  "provider_call (FromExistingCollection n) = True"
| "provider_call (FromDocuments docs n) = True"
| "provider_call (GetRelevantDocuments s q k) = True"
| "provider_call (LlmInvoke l ms) = True"
| "provider_call _ = False"

text \<open>The events of chunking and of the index gateway.\<close>

fun ingest_step :: "event \<Rightarrow> bool" where
  "ingest_step (SplitDocuments cs co docs) = True"
| "ingest_step (FromExistingCollection n) = True"
| "ingest_step (FromDocuments docs n) = True"
| "ingest_step _ = False"

text \<open>Whether a document has no content left after trimming, as \<open>/process\<close> tests it.\<close>

definition blank_content :: "document \<Rightarrow> bool" where
  "blank_content d \<longleftrightarrow> trim (orElse (pageContent d) []) = []"

section \<open>Concrete inputs\<close>

definition pe_nokey :: process_env where
  "pe_nokey = \<lparr>env_OPENAI_API_KEY = None, env_YT_LANGUAGE = None\<rparr>"

definition pe_fr :: process_env where
  "pe_fr = \<lparr>env_OPENAI_API_KEY = Some (lit ''sk-test''), env_YT_LANGUAGE = Some (lit ''fr'')\<rparr>"

definition doc_sky :: document where
  "doc_sky = Document (lit ''The sky is blue.'') \<lparr>source = Some (lit ''inline''), note' = None\<rparr>"

definition caption_docs :: "document list" where
  "caption_docs =
     [\<lparr>pageContent = Some (lit '' hello''), metadata = None\<rparr>,
      \<lparr>pageContent = None, metadata = None\<rparr>,
      \<lparr>pageContent = Some (lit ''world ''), metadata = None\<rparr>]"

definition url_demo :: jsstring where
  "url_demo = lit ''https://youtu.be/abc''"

text \<open>Every service answers; captions exist, but only without a language hint.\<close>

definition world_ok :: world where
  "world_ok =
     \<lparr>fs_access = (\<lambda>p. True),
      pdf_loader_load = (\<lambda>p. Inr []),
      youtube_loader_load =
        (\<lambda>u opts. if language opts = None then Inr caption_docs
                   else Inl (Error (lit ''Transcript is disabled''))),
      splitDocuments = (\<lambda>cs co docs. Inr docs),
      fromExistingCollection = (\<lambda>n. Inr (Store n)),
      fromDocuments = (\<lambda>docs n. None),
      getRelevantDocuments = (\<lambda>s q k. Inr (take k [doc_sky])),
      llm_invoke = (\<lambda>l ms. Inr (ContentString (lit ''blue'')))\<rparr>"

text \<open>Every service fails.\<close>

definition world_down :: world where
  "world_down =
     \<lparr>fs_access = (\<lambda>p. False),
      pdf_loader_load = (\<lambda>p. Inl (Error (lit ''bad XRef entry''))),
      youtube_loader_load = (\<lambda>u opts. Inl (Error (lit ''Transcript is disabled''))),
      splitDocuments = (\<lambda>cs co docs. Inr docs),
      fromExistingCollection = (\<lambda>n. Inl (Error (lit ''ECONNREFUSED''))),
      fromDocuments = (\<lambda>docs n. Some (Error (lit ''ECONNREFUSED''))),
      getRelevantDocuments = (\<lambda>s q k. Inl (Error (lit ''ECONNREFUSED''))),
      llm_invoke = (\<lambda>l ms. Inl (Error (lit ''429'')))\<rparr>"

definition state_empty :: server_state where
  "state_empty = \<lparr>sessions = Map.empty, sharedStorePromise = None\<rparr>"

definition query_demo :: jsstring where
  "query_demo = lit ''What color is the sky?''"

text \<open>Only a video URL, only inline text.\<close>

definition req_captionless :: process_request where
  "req_captionless = \<lparr>inlineText = None, youtubeUrl = Some url_demo, file' = None\<rparr>"

definition req_inline :: process_request where
  "req_inline = \<lparr>inlineText = Some (lit ''The sky is blue.''), youtubeUrl = None, file' = None\<rparr>"

text \<open>The placeholder of a video without captions.\<close>

definition doc_nocaptions :: document where
  "doc_nocaptions =
     Document []
       \<lparr>source = Some url_demo,
        note' = Some (lit ''No transcript available or failed to fetch via LangChain YoutubeLoader'')\<rparr>"

section \<open>Auxiliary facts\<close>

lemma trim_Nil: "trim [] = []"
  by (simp add: trim_def)

lemma nokey: "OPENAI_API_KEY pe_nokey = []"
  by (simp add: OPENAI_API_KEY_def pe_nokey_def orElse_def)

lemma url_demo_not_blank: "trim url_demo \<noteq> []"
  by (simp add: url_demo_def trim_def lit_def isWhiteSpace_def)

lemma caption_text:
  "trim (join [0x000A] (map (\<lambda>d. orElse (pageContent d) []) caption_docs))
     = lit ''hello'' @ [0x000A, 0x000A] @ lit ''world''"
  by (simp add: caption_docs_def trim_def lit_def isWhiteSpace_def orElse_def)

lemma haskey: "OPENAI_API_KEY pe_fr = lit ''sk-test''"
  by (simp add: OPENAI_API_KEY_def pe_fr_def orElse_def lit_def)

lemma haskey_ne: "OPENAI_API_KEY pe_fr \<noteq> []"
  by (simp add: haskey) (simp add: lit_def)

lemma retrieval_demo:
  "getRelevantDocuments world_ok (Store COLLECTION_NAME) query_demo 5 = Inr [doc_sky]"
  by (simp add: world_ok_def)

lemma doc_sky_fields:
  "metadata_source doc_sky = Some (lit ''inline'')"
  "pageContent doc_sky = Some (lit ''The sky is blue.'')"
  by (simp_all add: doc_sky_def Document_def metadata_source_def)

lemma answer_demo:
  "snd (answer pe_fr world_ok (Store COLLECTION_NAME) query_demo None) =
     Inr \<lparr>answer_text = Some (lit ''blue''),
          sources = [\<lparr>cited_source = lit ''inline'', snippet = lit ''The sky is blue.''\<rparr>]\<rparr>"
  using haskey_ne
  by (simp add: answer_def makeLLM_def world_ok_def responseText_def doc_sky_fields orElse_def
      lit_def)

lemma query_demo_ne: "query_demo \<noteq> []"
  by (simp add: query_demo_def lit_def)

lemma loadPdf_events: "\<not> list_ex ingest_step (fst (loadPdf w p n))"
  by (simp add: loadPdf_def)

lemma loadYouTube_events: "\<not> list_ex ingest_step (fst (loadYouTube pe w u))"
  by (simp add: loadYouTube_def Let_def split: option.splits)

lemma loadParts_events: "\<not> list_ex ingest_step (fst (loadParts pe w req))"
  using loadPdf_events loadYouTube_events
  by (auto simp: loadParts_def Let_def split_beta list_ex_iff split: option.splits)

lemma collectNotes_eq:
  "collectNotes docs = filter (\<lambda>n. n \<noteq> []) (List.map_filter metadata_note docs)"
  by (induction docs) (auto simp: collectNotes_def truthy_def split: option.splits)

lemma filter_notes_id:
  "\<forall>d\<in>set docs. metadata_note d \<noteq> Some [] \<Longrightarrow>
     filter (\<lambda>n. n \<noteq> []) (List.map_filter metadata_note docs) = List.map_filter metadata_note docs"
  by (induction docs) (auto split: option.splits)

lemma loadInline_notes: "d \<in> set (loadInline t) \<Longrightarrow> metadata_note d = None"
  by (auto simp: loadInline_def Document_def metadata_note_def split: option.splits if_splits)

lemma loadYouTube_notes: "d \<in> set (snd (loadYouTube pe w u)) \<Longrightarrow> metadata_note d \<noteq> Some []"
  by (auto simp: loadYouTube_def Let_def Document_def metadata_note_def lit_def
      split: option.splits if_splits)

lemma loadPdf_notes:
  assumes "loadPdf w p n = (t, Inr docs)" and "d \<in> set docs"
    and "\<forall>docs'. pdf_loader_load w p = Inr docs' \<longrightarrow> (\<forall>d\<in>set docs'. metadata_note d \<noteq> Some [])"
  shows "metadata_note d \<noteq> Some []"
  using assms
  by (auto simp: loadPdf_def Document_def metadata_note_def lit_def
      split: if_splits sum.splits option.splits)

lemma loadParts_notes:
  assumes "loadParts pe w req = (tp, Inr docs)"
    and "\<forall>f docs'. file' req = Some f \<and> pdf_loader_load w (path f) = Inr docs' \<longrightarrow>
           (\<forall>d\<in>set docs'. metadata_note d \<noteq> Some [])"
  shows "\<forall>d\<in>set docs. metadata_note d \<noteq> Some []"
proof
  fix d assume d: "d \<in> set docs"
  show "metadata_note d \<noteq> Some []"
  proof (cases "file' req")
    case None
    with assms(1) d have "d \<in> set (loadInline (inlineText req))
        \<or> d \<in> set (snd (loadYouTube pe w (youtubeUrl req)))"
      by (auto simp: loadParts_def Let_def split_beta)
    then show ?thesis
      using loadInline_notes loadYouTube_notes by fastforce
  next
    case (Some f)
    with assms(1) obtain pdfDocs where
      p: "loadPdf w (path f) (originalname f) = (fst (loadPdf w (path f) (originalname f)), Inr pdfDocs)"
      and "docs = loadInline (inlineText req) @ pdfDocs @ snd (loadYouTube pe w (youtubeUrl req))"
      by (auto simp: loadParts_def Let_def split_beta prod_eq_iff split: sum.splits)
    with d consider "d \<in> set (loadInline (inlineText req))" | "d \<in> set pdfDocs"
      | "d \<in> set (snd (loadYouTube pe w (youtubeUrl req)))"
      by auto
    then show ?thesis
    proof cases
      case 1
      then show ?thesis using loadInline_notes by fastforce
    next
      case 2
      with p assms(2) Some show ?thesis
        using loadPdf_notes by blast
    next
      case 3
      then show ?thesis using loadYouTube_notes by fastforce
    qed
  qed
qed

lemma upsertChunks_added: "upsertChunks w (Some cs) = (tw, Inr n) \<Longrightarrow> n = length cs"
  by (auto simp: upsertChunks_def split: if_splits option.splits)

lemma url_demo_ne: "url_demo \<noteq> []"
  using url_demo_not_blank trim_Nil by auto

lemma loadParts_captionless:
  "loadParts pe_fr world_down req_captionless =
     ([YoutubeLoad url_demo \<lparr>language = Some (lit ''en''), addVideoInfo = True,
                              translation = Some (lit ''en'')\<rparr>,
       YoutubeLoad url_demo \<lparr>language = None, addVideoInfo = False, translation = None\<rparr>],
      Inr [doc_nocaptions])"
  using url_demo_not_blank url_demo_ne
  by (simp add: loadParts_def req_captionless_def loadInline_def loadYouTube_def world_down_def
      doc_nocaptions_def)

lemma doc_nocaptions_blank: "blank_content doc_nocaptions"
  by (simp add: blank_content_def doc_nocaptions_def Document_def orElse_def trim_Nil)

lemma loadParts_inline: "loadParts pe_fr world_ok req_inline = ([], Inr [doc_sky])"
proof -
  have "trim (lit ''The sky is blue.'') \<noteq> []"
    by (simp add: trim_def lit_def isWhiteSpace_def)
  moreover have "lit ''The sky is blue.'' \<noteq> []"
    by (simp add: lit_def)
  ultimately show ?thesis
    by (simp add: loadParts_def req_inline_def loadInline_def loadYouTube_def doc_sky_def)
qed

lemma process_inline_status:
  "status (snd (snd (process_handler pe_fr world_ok 17 (lit ''0.4fzyo82mvyr'') state_empty req_inline)))
     = 200"
proof -
  have "trim (lit ''The sky is blue.'') \<noteq> []"
    by (simp add: trim_def lit_def isWhiteSpace_def)
  moreover have "lit ''The sky is blue.'' \<noteq> []"
    by (simp add: lit_def)
  ultimately have "list_ex (\<lambda>d. length (trim (orElse (pageContent d) [])) > 0) [doc_sky]"
    by (simp add: doc_sky_def Document_def orElse_def)
  then show ?thesis
    unfolding process_handler_def loadParts_inline
    by (simp add: chunkDocs_def getSharedStore_def makeStore_def upsertChunks_def
        state_empty_def world_ok_def Let_def req_inline_def)
qed

section \<open>Source normalizer: inline text\<close>

text \<open>
  Claim C2.  For every inline text: when it is absent, or blank once trimmed,
  \<open>loadInline\<close> yields no document; otherwise it yields exactly one document, whose
  content is the text as given (not trimmed) and whose metadata source is \<open>inline\<close>.
\<close>

theorem C2_loadInline:
  "((text' = None \<or> (\<exists>t. text' = Some t \<and> trim t = [])) \<longrightarrow> loadInline text' = [])
   \<and> (\<forall>t. text' = Some t \<and> trim t \<noteq> [] \<longrightarrow>
          loadInline text' =
            [\<lparr>pageContent = Some t,
              metadata = Some \<lparr>source = Some (lit ''inline''), note' = None\<rparr>\<rparr>])"
  using trim_Nil by (auto simp: loadInline_def Document_def split: option.splits)

theorem C2_loadInline_witness:
  "loadInline (Some (lit '' hi '')) =
     [\<lparr>pageContent = Some (lit '' hi ''),
       metadata = Some \<lparr>source = Some (lit ''inline''), note' = None\<rparr>\<rparr>]
   \<and> loadInline (Some (lit ''  '')) = []
   \<and> loadInline None = []"
proof -
  have a: "trim (lit '' hi '') \<noteq> []"
    by (simp add: trim_def lit_def isWhiteSpace_def)
  have b: "trim (lit ''  '') = []"
    by (simp add: trim_def lit_def isWhiteSpace_def)
  show ?thesis
    using C2_loadInline [of "Some (lit '' hi '')"] C2_loadInline [of "Some (lit ''  '')"]
      C2_loadInline [of None] a b
    by simp
qed

section \<open>Source normalizer: video captions\<close>

text \<open>
  Claim C3.  For every video URL that is not blank, \<open>loadYouTube\<close> returns exactly one
  document whose source is the URL as given, whatever the caption loader answers or
  throws (the result has no error case).  With \<open>t1\<close> and \<open>t2\<close> the usable texts of the
  attempt with and without language hint: when both are empty the document has empty
  content and the diagnostic note; when \<open>t1\<close> is not empty the content is \<open>t1\<close> and only
  the first attempt was made; when \<open>t1\<close> is empty both attempts were made, in this order,
  and the content is \<open>t2\<close> if that is not empty.  The usable text of an attempt is the
  page contents of the loaded documents joined by newlines, then trimmed.
\<close>

theorem C3_loadYouTube:
  assumes "trim u \<noteq> []"
  shows "\<exists>d. snd (loadYouTube pe w (Some u)) = [d] \<and> metadata_source d = Some u \<and>
     (let opts1 = \<lparr>language = Some (lit ''en''), addVideoInfo = True,
                   translation = Some (lit ''en'')\<rparr>;
          opts2 = \<lparr>language = None, addVideoInfo = False, translation = None\<rparr>;
          t1 = attemptText (youtube_loader_load w u opts1);
          t2 = attemptText (youtube_loader_load w u opts2)
      in (t1 = [] \<and> t2 = [] \<longrightarrow>
            pageContent d = Some [] \<and>
            metadata_note d =
              Some (lit ''No transcript available or failed to fetch via LangChain YoutubeLoader''))
       \<and> (t1 \<noteq> [] \<longrightarrow>
            pageContent d = Some t1 \<and> fst (loadYouTube pe w (Some u)) = [YoutubeLoad u opts1])
       \<and> (t1 = [] \<longrightarrow>
            fst (loadYouTube pe w (Some u)) = [YoutubeLoad u opts1, YoutubeLoad u opts2])
       \<and> (t1 = [] \<and> t2 \<noteq> [] \<longrightarrow> pageContent d = Some t2))"
proof -
  from assms have "u \<noteq> []"
    using trim_Nil by auto
  with assms show ?thesis
    unfolding loadYouTube_def attemptText_def Let_def
    by (simp add: Document_def metadata_source_def metadata_note_def)
qed

theorem C3_loadYouTube_witness:
  "trim url_demo \<noteq> []
   \<and> (\<exists>d. snd (loadYouTube pe_fr world_ok (Some url_demo)) = [d]
          \<and> metadata_source d = Some url_demo
          \<and> pageContent d = Some (lit ''hello'' @ [0x000A, 0x000A] @ lit ''world''))
   \<and> fst (loadYouTube pe_fr world_ok (Some url_demo)) =
       [YoutubeLoad url_demo \<lparr>language = Some (lit ''en''), addVideoInfo = True,
                              translation = Some (lit ''en'')\<rparr>,
        YoutubeLoad url_demo \<lparr>language = None, addVideoInfo = False, translation = None\<rparr>]"
proof -
  have t1: "attemptText (youtube_loader_load world_ok url_demo
              \<lparr>language = Some (lit ''en''), addVideoInfo = True, translation = Some (lit ''en'')\<rparr>) = []"
    by (simp add: attemptText_def world_ok_def)
  have t2: "attemptText (youtube_loader_load world_ok url_demo
              \<lparr>language = None, addVideoInfo = False, translation = None\<rparr>)
            = lit ''hello'' @ [0x000A, 0x000A] @ lit ''world''"
    using caption_text by (simp add: attemptText_def world_ok_def)
  have ne: "lit ''hello'' @ [0x000A, 0x000A] @ lit ''world'' \<noteq> []"
    by (simp add: lit_def)
  from C3_loadYouTube [OF url_demo_not_blank, of pe_fr world_ok] obtain d where
    "snd (loadYouTube pe_fr world_ok (Some url_demo)) = [d]"
    "metadata_source d = Some url_demo"
    "pageContent d = Some (lit ''hello'' @ [0x000A, 0x000A] @ lit ''world'')"
    "fst (loadYouTube pe_fr world_ok (Some url_demo)) =
       [YoutubeLoad url_demo \<lparr>language = Some (lit ''en''), addVideoInfo = True,
                              translation = Some (lit ''en'')\<rparr>,
        YoutubeLoad url_demo \<lparr>language = None, addVideoInfo = False, translation = None\<rparr>]"
    using t1 t2 ne unfolding Let_def by auto
  with url_demo_not_blank show ?thesis
    by blast
qed

text \<open>
  Claim C4.  The language hint of the first attempt is the literal \<open>en\<close> of the source,
  not \<open>YT_LANGUAGE\<close>: with \<open>YT_LANGUAGE\<close> set to \<open>fr\<close> and a loader that never finds
  captions, the first attempt is made with hint \<open>en\<close> and the second with none.
\<close>

theorem C4_first_attempt_hint:
  "YT_LANGUAGE pe_fr = lit ''fr''
   \<and> fst (loadYouTube pe_fr world_down (Some url_demo)) =
       [YoutubeLoad url_demo \<lparr>language = Some (lit ''en''), addVideoInfo = True,
                              translation = Some (lit ''en'')\<rparr>,
        YoutubeLoad url_demo \<lparr>language = None, addVideoInfo = False, translation = None\<rparr>]
   \<and> lit ''en'' \<noteq> lit ''fr''"
  by (simp add: YT_LANGUAGE_def pe_fr_def orElse_def loadYouTube_def world_down_def url_demo_def
      trim_def isWhiteSpace_def lit_def)

section \<open>Index gateway\<close>

text \<open>
  Claim C6.  \<open>upsertChunks\<close> on an absent or empty chunk list makes no call and returns 0.
  On a non-empty list it makes exactly one write, of that list, to the shared collection;
  it returns the length of the list when the write succeeds and throws the error of the
  write otherwise.  Whenever it returns, the number returned is the number of records it
  handed to the vector database.
\<close>

theorem C6_upsertChunks:
  "((chunks' = None \<or> chunks' = Some []) \<longrightarrow> upsertChunks w chunks' = ([], Inr 0))
   \<and> (\<forall>cs. chunks' = Some cs \<and> cs \<noteq> [] \<longrightarrow>
          fst (upsertChunks w chunks') = [FromDocuments cs COLLECTION_NAME]
          \<and> snd (upsertChunks w chunks') =
              (case fromDocuments w cs COLLECTION_NAME of
                 None \<Rightarrow> Inr (length cs)
               | Some e \<Rightarrow> Inl e))
   \<and> (\<forall>n. snd (upsertChunks w chunks') = Inr n \<longrightarrow>
          n = sum_list (map written (fst (upsertChunks w chunks'))))"
  by (auto simp: upsertChunks_def split: option.splits)

theorem C6_upsertChunks_witness:
  "upsertChunks world_ok (Some []) = ([], Inr 0)
   \<and> fst (upsertChunks world_ok (Some [doc_sky, doc_sky])) =
       [FromDocuments [doc_sky, doc_sky] COLLECTION_NAME]
   \<and> snd (upsertChunks world_ok (Some [doc_sky, doc_sky])) = Inr 2"
  using C6_upsertChunks [of "Some []" world_ok]
    C6_upsertChunks [of "Some [doc_sky, doc_sky]" world_ok]
  by (simp add: world_ok_def)

section \<open>Retrieval-answer engine\<close>

text \<open>
  Claim C1, as the code has it.  When \<open>OPENAI_API_KEY\<close> is empty, \<open>answer\<close> makes exactly
  one call, the retrieval (which embeds the query and searches the vector database), and
  never calls the language model.  It throws the error of the retrieval if that failed,
  and \<open>Missing OPENAI_API_KEY\<close> otherwise: the credential is checked after retrieval and
  before the model is built.
\<close>

theorem C1_missing_key_after_retrieval:
  assumes "OPENAI_API_KEY pe = []"
  shows "answer pe w s q k' =
     (let k = (case k' of None \<Rightarrow> 5 | Some n \<Rightarrow> n)
      in ([GetRelevantDocuments s q k],
          case getRelevantDocuments w s q k of
            Inl e \<Rightarrow> Inl e
          | Inr docs \<Rightarrow> Inl (Error (lit ''Missing OPENAI_API_KEY''))))"
  using assms by (simp add: answer_def makeLLM_def Let_def split: sum.splits)

theorem C1_missing_key_after_retrieval_witness:
  "OPENAI_API_KEY pe_nokey = [] \<and>
   answer pe_nokey world_ok (Store COLLECTION_NAME) (lit ''What color is the sky?'') None =
     ([GetRelevantDocuments (Store COLLECTION_NAME) (lit ''What color is the sky?'') 5],
      Inl (Error (lit ''Missing OPENAI_API_KEY'')))"
  using C1_missing_key_after_retrieval [OF nokey, of world_ok "Store COLLECTION_NAME"
      "lit ''What color is the sky?''" None] nokey
  by (simp add: world_ok_def)

text \<open>
  Claim C1 as stated fails: without a credential, \<open>answer\<close> on a working store has
  made a provider call by the time it fails, and on a store whose retrieval fails it
  throws the retrieval's error, not the missing-credential error.
\<close>

theorem C1_retrieval_before_credential_check:
  "OPENAI_API_KEY pe_nokey = []
   \<and> list_ex provider_call
        (fst (answer pe_nokey world_ok (Store COLLECTION_NAME) (lit ''What color is the sky?'') None))
   \<and> snd (answer pe_nokey world_down (Store COLLECTION_NAME) (lit ''What color is the sky?'') None)
       = Inl (Error (lit ''ECONNREFUSED''))
   \<and> Error (lit ''ECONNREFUSED'') \<noteq> Error (lit ''Missing OPENAI_API_KEY'')"
  by (simp add: nokey answer_def world_ok_def world_down_def makeLLM_def lit_def)

text \<open>
  Claim C7.  When the retrieval returns \<open>docs\<close> and the credential is present, \<open>answer\<close>
  calls the model with a user message whose context is one block per retrieved chunk, in
  retrieval order, joined by a blank line (two newlines).  Block \<open>i\<close> (counted from 0) is
  the line \<open># Doc <i+1> (source: <source>)\<close>, a newline, and the first 1200 code units of
  the chunk's content; \<open><source>\<close> is the chunk's metadata source, or \<open>unknown\<close> when that
  is missing or empty.
\<close>

theorem C7_context:
  assumes "getRelevantDocuments w s q (case k' of None \<Rightarrow> 5 | Some n \<Rightarrow> n) = Inr docs"
    and "OPENAI_API_KEY pe \<noteq> []"
  shows "\<exists>l sys usr blocks.
     fst (answer pe w s q k') =
       [GetRelevantDocuments s q (case k' of None \<Rightarrow> 5 | Some n \<Rightarrow> n), LlmInvoke l [sys, usr]]
     \<and> content usr = user_content (join [0x000A, 0x000A] blocks) q
     \<and> length blocks = length docs
     \<and> (\<forall>i<length docs.
          blocks ! i =
            lit ''# Doc '' @ digits (i + 1) @ lit '' (source: ''
            @ orElse (metadata_source (docs ! i)) (lit ''unknown'') @ lit '')'' @ [0x000A]
            @ take 1200 (orElse (pageContent (docs ! i)) []))"
proof -
  define blocks where "blocks =
     map (\<lambda>(i, d). lit ''# Doc '' @ digits (i + 1) @ lit '' (source: ''
            @ orElse (metadata_source d) (lit ''unknown'') @ lit '')'' @ [0x000A]
            @ take 1200 (orElse (pageContent d) [])) (enumerate 0 docs)"
  have len: "length blocks = length docs"
    by (simp add: blocks_def)
  have nth: "\<forall>i<length docs.
          blocks ! i =
            lit ''# Doc '' @ digits (i + 1) @ lit '' (source: ''
            @ orElse (metadata_source (docs ! i)) (lit ''unknown'') @ lit '')'' @ [0x000A]
            @ take 1200 (orElse (pageContent (docs ! i)) [])"
    by (simp add: blocks_def nth_enumerate_eq)
  have "\<exists>l sys usr. fst (answer pe w s q k') =
       [GetRelevantDocuments s q (case k' of None \<Rightarrow> 5 | Some n \<Rightarrow> n), LlmInvoke l [sys, usr]]
     \<and> content usr = user_content (join [0x000A, 0x000A] blocks) q"
    using assms unfolding answer_def makeLLM_def Let_def blocks_def
    by (simp split: sum.splits)
  with len nth show ?thesis
    by blast
qed

theorem C7_context_witness:
  "getRelevantDocuments world_ok (Store COLLECTION_NAME) query_demo 5 = Inr [doc_sky]
   \<and> OPENAI_API_KEY pe_fr \<noteq> []
   \<and> (\<exists>l sys usr.
         fst (answer pe_fr world_ok (Store COLLECTION_NAME) query_demo None) =
           [GetRelevantDocuments (Store COLLECTION_NAME) query_demo 5, LlmInvoke l [sys, usr]]
         \<and> content usr =
             user_content (lit ''# Doc 1 (source: inline)'' @ [0x000A] @ lit ''The sky is blue.'')
               query_demo)"
proof -
  have r: "getRelevantDocuments world_ok (Store COLLECTION_NAME) query_demo
             (case None of None \<Rightarrow> 5 | Some n \<Rightarrow> n) = Inr [doc_sky]"
    using retrieval_demo by simp
  from C7_context [OF r haskey_ne] obtain l sys usr blocks where
    f: "fst (answer pe_fr world_ok (Store COLLECTION_NAME) query_demo None) =
          [GetRelevantDocuments (Store COLLECTION_NAME) query_demo 5, LlmInvoke l [sys, usr]]"
    and c: "content usr = user_content (join [0x000A, 0x000A] blocks) query_demo"
    and n: "length blocks = length [doc_sky]"
    and b: "\<forall>i<length [doc_sky].
          blocks ! i =
            lit ''# Doc '' @ digits (i + 1) @ lit '' (source: ''
            @ orElse (metadata_source ([doc_sky] ! i)) (lit ''unknown'') @ lit '')'' @ [0x000A]
            @ take 1200 (orElse (pageContent ([doc_sky] ! i)) [])"
    by auto
  from n obtain b0 where bs: "blocks = [b0]"
    by (cases blocks) auto
  from b bs have "b0 = lit ''# Doc 1 (source: inline)'' @ [0x000A] @ lit ''The sky is blue.''"
    by (simp add: doc_sky_fields orElse_def lit_def)
  with bs c have "content usr =
      user_content (lit ''# Doc 1 (source: inline)'' @ [0x000A] @ lit ''The sky is blue.'') query_demo"
    by simp
  with f retrieval_demo haskey_ne show ?thesis
    by blast
qed

text \<open>
  Claim C8.  When \<open>answer\<close> returns a result, its \<open>sources\<close> are the retrieved chunks
  mapped one by one, in order and with duplicates kept, to the chunk's metadata source
  (\<open>unknown\<close> when missing or empty) and the first 200 code units of its content.  So
  every snippet has at most 200 code units, and there are as many sources as retrieved
  chunks: at most 5 with the default \<open>k\<close>, given that the retriever returns at most \<open>k\<close>.
\<close>

theorem C8_sources:
  assumes "answer pe w s q k' = (t, Inr r)"
  shows "\<exists>docs. getRelevantDocuments w s q (case k' of None \<Rightarrow> 5 | Some n \<Rightarrow> n) = Inr docs
     \<and> sources r =
         map (\<lambda>d. \<lparr>cited_source = orElse (metadata_source d) (lit ''unknown''),
                   snippet = take 200 (orElse (pageContent d) [])\<rparr>) docs
     \<and> length (sources r) = length docs
     \<and> (\<forall>i<length docs. \<forall>src. metadata_source (docs ! i) = Some src \<and> src \<noteq> [] \<longrightarrow>
            cited_source (sources r ! i) = src)
     \<and> (\<forall>c\<in>set (sources r). length (snippet c) \<le> 200)
     \<and> (k' = None \<and> length docs \<le> 5 \<longrightarrow> length (sources r) \<le> 5)"
proof (cases "getRelevantDocuments w s q (case k' of None \<Rightarrow> 5 | Some n \<Rightarrow> n)")
  case (Inl e)
  with assms show ?thesis
    by (simp add: answer_def Let_def)
next
  case (Inr docs)
  with assms have src: "sources r =
         map (\<lambda>d. \<lparr>cited_source = orElse (metadata_source d) (lit ''unknown''),
                   snippet = take 200 (orElse (pageContent d) [])\<rparr>) docs"
    by (auto simp: answer_def Let_def split: sum.splits)
  then have "\<forall>i<length docs. \<forall>src. metadata_source (docs ! i) = Some src \<and> src \<noteq> [] \<longrightarrow>
            cited_source (sources r ! i) = src"
    by (simp add: orElse_def)
  moreover from src have "\<forall>c\<in>set (sources r). length (snippet c) \<le> 200"
    by auto
  ultimately show ?thesis
    using Inr src by simp
qed


theorem C8_sources_witness:
  "\<exists>t r. answer pe_fr world_ok (Store COLLECTION_NAME) query_demo None = (t, Inr r)
     \<and> sources r = [\<lparr>cited_source = lit ''inline'', snippet = lit ''The sky is blue.''\<rparr>]
     \<and> (\<forall>c\<in>set (sources r). length (snippet c) \<le> 200)
     \<and> length (sources r) \<le> 5"
proof -
  obtain t r where a: "answer pe_fr world_ok (Store COLLECTION_NAME) query_demo None = (t, Inr r)"
    and r: "r = \<lparr>answer_text = Some (lit ''blue''),
          sources = [\<lparr>cited_source = lit ''inline'', snippet = lit ''The sky is blue.''\<rparr>]\<rparr>"
    using answer_demo by (metis prod.collapse)
  from C8_sources [OF a] retrieval_demo
  have "(\<forall>c\<in>set (sources r). length (snippet c) \<le> 200) \<and> length (sources r) \<le> 5"
    by auto
  with a r show ?thesis
    by auto
qed

section \<open>The ask route\<close>

text \<open>
  Claim C9.  \<open>POST /ask\<close> with a missing (or empty) \<open>sessionId\<close> or \<open>query\<close> answers 400;
  with both present and a \<open>sessionId\<close> that the session registry does not hold it
  answers 404.  In both cases no call is made at all and the state is unchanged.
\<close>

theorem C9_ask_rejections:
  "((\<not> truthy (ask_sessionId req) \<or> \<not> truthy (ask_query req)) \<longrightarrow>
      ask_handler pe w st req =
        ([], st, \<lparr>status = 400, body = ErrorBody (lit ''sessionId and query are required'')\<rparr>))
   \<and> (\<forall>sid. ask_sessionId req = Some sid \<and> sid \<noteq> [] \<and> truthy (ask_query req)
              \<and> sessions st sid = None \<longrightarrow>
          ask_handler pe w st req =
            ([], st, \<lparr>status = 404, body = ErrorBody (lit ''Invalid or expired sessionId'')\<rparr>))"
  by (auto simp: ask_handler_def truthy_def Let_def split: option.splits)

theorem C9_ask_rejections_witness:
  "ask_handler pe_fr world_ok state_empty \<lparr>ask_sessionId = None, ask_query = Some query_demo\<rparr> =
     ([], state_empty,
      \<lparr>status = 400, body = ErrorBody (lit ''sessionId and query are required'')\<rparr>)
   \<and> ask_handler pe_fr world_ok state_empty
        \<lparr>ask_sessionId = Some (lit ''s_17_abcdef''), ask_query = Some query_demo\<rparr> =
     ([], state_empty, \<lparr>status = 404, body = ErrorBody (lit ''Invalid or expired sessionId'')\<rparr>)"
proof -
  have "lit ''s_17_abcdef'' \<noteq> []"
    by (simp add: lit_def)
  then show ?thesis
    using C9_ask_rejections [of "\<lparr>ask_sessionId = None, ask_query = Some query_demo\<rparr>"
        pe_fr world_ok state_empty]
      C9_ask_rejections [of "\<lparr>ask_sessionId = Some (lit ''s_17_abcdef''),
        ask_query = Some query_demo\<rparr>" pe_fr world_ok state_empty] query_demo_ne
    by (simp add: truthy_def state_empty_def)
qed

section \<open>The process route\<close>

text \<open>
  Claim C5.  When the loaders return documents that are all blank once trimmed,
  \<open>POST /process\<close> answers 400 with the no-extractable-content message and the notes of
  the documents: every note that is neither missing nor the empty string, in document
  order.  That is the list of all non-null notes provided the PDF loader attaches no
  empty-string note; the notes written by the server itself are never empty.  Nothing is
  chunked, the index gateway is not called, and the state, with its session registry, is
  unchanged.
\<close>

theorem C5_no_extractable_content:
  assumes "loadParts pe w req = (tp, Inr docs)"
    and "\<forall>d\<in>set docs. blank_content d"
  shows "\<exists>t. process_handler pe w now random36 st req =
           (t, st,
            \<lparr>status = 400,
             body = NoContent no_content_message
                      (filter (\<lambda>n. n \<noteq> []) (List.map_filter metadata_note docs))\<rparr>)
         \<and> \<not> list_ex ingest_step t
         \<and> ((\<forall>f docs'. file' req = Some f \<and> pdf_loader_load w (path f) = Inr docs' \<longrightarrow>
                (\<forall>d\<in>set docs'. metadata_note d \<noteq> Some [])) \<longrightarrow>
              filter (\<lambda>n. n \<noteq> []) (List.map_filter metadata_note docs)
                = List.map_filter metadata_note docs)"
proof -
  from assms(2) have none: "\<not> list_ex (\<lambda>d. length (trim (orElse (pageContent d) [])) > 0) docs"
    by (simp add: list_ex_iff blank_content_def)
  have tp: "\<not> list_ex ingest_step tp"
    using loadParts_events [of pe w req] assms(1) by simp
  have tu: "\<not> list_ex ingest_step (case file' req of None \<Rightarrow> [] | Some f \<Rightarrow> [FsUnlink (path f)])"
    by (simp split: option.splits)
  have "process_handler pe w now random36 st req =
           (tp @ (case file' req of None \<Rightarrow> [] | Some f \<Rightarrow> [FsUnlink (path f)]), st,
            \<lparr>status = 400, body = NoContent no_content_message (collectNotes docs)\<rparr>)"
    using assms(1) none by (simp add: process_handler_def Let_def)
  moreover have "\<not> list_ex ingest_step
      (tp @ (case file' req of None \<Rightarrow> [] | Some f \<Rightarrow> [FsUnlink (path f)]))"
    using tp tu by (cases "file' req") simp_all
  moreover have "(\<forall>f docs'. file' req = Some f \<and> pdf_loader_load w (path f) = Inr docs' \<longrightarrow>
                (\<forall>d\<in>set docs'. metadata_note d \<noteq> Some [])) \<longrightarrow>
              filter (\<lambda>n. n \<noteq> []) (List.map_filter metadata_note docs)
                = List.map_filter metadata_note docs"
    using filter_notes_id [of docs] loadParts_notes [OF assms(1)] by blast
  ultimately show ?thesis
    unfolding collectNotes_eq by blast
qed

theorem C5_no_extractable_content_witness:
  "loadParts pe_fr world_down req_captionless =
     ([YoutubeLoad url_demo \<lparr>language = Some (lit ''en''), addVideoInfo = True,
                              translation = Some (lit ''en'')\<rparr>,
       YoutubeLoad url_demo \<lparr>language = None, addVideoInfo = False, translation = None\<rparr>],
      Inr [doc_nocaptions])
   \<and> blank_content doc_nocaptions
   \<and> (\<exists>t. process_handler pe_fr world_down 17 (lit ''0.4fzyo82mvyr'') state_empty req_captionless =
            (t, state_empty,
             \<lparr>status = 400,
              body = NoContent no_content_message
                [lit ''No transcript available or failed to fetch via LangChain YoutubeLoader'']\<rparr>)
          \<and> \<not> list_ex ingest_step t)"
proof -
  have b: "\<forall>d\<in>set [doc_nocaptions]. blank_content d"
    using doc_nocaptions_blank by simp
  have n: "filter (\<lambda>n. n \<noteq> []) (List.map_filter metadata_note [doc_nocaptions]) =
      [lit ''No transcript available or failed to fetch via LangChain YoutubeLoader'']"
    by (simp add: doc_nocaptions_def Document_def metadata_note_def lit_def)
  from C5_no_extractable_content [OF loadParts_captionless b, of 17 "lit ''0.4fzyo82mvyr''" state_empty]
  show ?thesis
    unfolding n using loadParts_captionless doc_nocaptions_blank by blast
qed

text \<open>
  Claim C10.  Every response of \<open>POST /process\<close> with status 200 reports as \<open>chunks\<close> the
  number of chunks the splitter made of the loaded documents, and as \<open>added\<close> the same
  number, whatever the vector database did with the write.
\<close>

theorem C10_added_equals_chunks:
  assumes "process_handler pe w now random36 st req = (t, st', r)"
    and "status r = 200"
  shows "\<exists>ok tp docs cs.
           loadParts pe w req = (tp, Inr docs) \<and> splitDocuments w 800 160 docs = Inr cs
           \<and> body r = ProcessOk ok \<and> chunks ok = length cs \<and> added ok = chunks ok"
proof -
  obtain tp lr where lp: "loadParts pe w req = (tp, lr)"
    by (cases "loadParts pe w req")
  show ?thesis
  proof (cases lr)
    case (Inl e)
    with assms lp show ?thesis
      by (auto simp: process_handler_def failed_def)
  next
    case docs: (Inr docs)
    show ?thesis
    proof (cases "list_ex (\<lambda>d. length (trim (orElse (pageContent d) [])) > 0) docs")
      case False
      with assms lp docs show ?thesis
        by (auto simp: process_handler_def Let_def)
    next
      case content: True
      show ?thesis
      proof (cases "splitDocuments w 800 160 docs")
        case (Inl e)
        with assms lp docs content show ?thesis
          by (auto simp: process_handler_def Let_def chunkDocs_def failed_def)
      next
        case cs: (Inr cs)
        obtain ts st1 sr where gs: "getSharedStore w st = (ts, st1, sr)"
          by (cases "getSharedStore w st")
        show ?thesis
        proof (cases sr)
          case (Inl e)
          with assms lp docs content cs gs show ?thesis
            by (auto simp: process_handler_def Let_def chunkDocs_def failed_def)
        next
          case store: (Inr store')
          obtain tw ur where up: "upsertChunks w (Some cs) = (tw, ur)"
            by (cases "upsertChunks w (Some cs)")
          show ?thesis
          proof (cases ur)
            case (Inl e)
            with assms lp docs content cs gs store up show ?thesis
              by (auto simp: process_handler_def Let_def chunkDocs_def failed_def)
          next
            case (Inr n)
            with up have n: "n = length cs"
              using upsertChunks_added by blast
            from assms(1) lp docs content cs gs store up Inr
            have "\<exists>ok. body r = ProcessOk ok \<and> chunks ok = length cs \<and> added ok = n"
              by (auto simp: process_handler_def Let_def chunkDocs_def)
            with n lp docs cs show ?thesis
              by auto
          qed
        qed
      qed
    qed
  qed
qed


theorem C10_added_equals_chunks_witness:
  "\<exists>t st' r. process_handler pe_fr world_ok 17 (lit ''0.4fzyo82mvyr'') state_empty req_inline = (t, st', r)
     \<and> status r = 200
     \<and> (\<exists>ok. body r = ProcessOk ok \<and> chunks ok = 1 \<and> added ok = 1)"
proof -
  obtain t st' r where
    p: "process_handler pe_fr world_ok 17 (lit ''0.4fzyo82mvyr'') state_empty req_inline = (t, st', r)"
    by (cases "process_handler pe_fr world_ok 17 (lit ''0.4fzyo82mvyr'') state_empty req_inline")
  with process_inline_status have s: "status r = 200"
    by simp
  from C10_added_equals_chunks [OF p s] obtain ok tp docs cs where
    l: "loadParts pe_fr world_ok req_inline = (tp, Inr docs)"
    and c: "splitDocuments world_ok 800 160 docs = Inr cs"
    and o: "body r = ProcessOk ok" "chunks ok = length cs" "added ok = chunks ok"
    by blast
  from l have "docs = [doc_sky]"
    by (simp add: loadParts_inline)
  with c have "cs = [doc_sky]"
    by (simp add: world_ok_def)
  with o have "body r = ProcessOk ok \<and> chunks ok = 1 \<and> added ok = 1"
    by simp
  with p s show ?thesis
    by blast
qed

end
